theory Spec2Isabelle
  imports Complex_Main "HOL-Library.Sublist"
begin

section \<open>JavaScript numbers\<close>

text \<open>
  The calculator of \<^verbatim>\<open>src/App.jsx\<close> computes with JavaScript numbers. A number is
  modelled as a finite value, one of the two infinities, or \<^verbatim>\<open>NaN\<close>. Finite values are
  exact reals: the rounding of IEEE doubles, overflow to infinity and the sign of zero
  are not modelled. Everything else the operators do (\<^verbatim>\<open>NaN\<close> is contagious,
  \<^verbatim>\<open>0/0\<close> and \<^verbatim>\<open>Infinity - Infinity\<close> are \<^verbatim>\<open>NaN\<close>, a comparison with \<^verbatim>\<open>NaN\<close> is false,
  \<^verbatim>\<open>0\<close> and \<^verbatim>\<open>NaN\<close> are falsy) is written out.
\<close>

datatype jsnum = Fin real | PosInf | NegInf | NaN

fun js_sgn :: "jsnum \<Rightarrow> real" where
  "js_sgn (Fin x) = sgn x"
| "js_sgn PosInf = 1"
| "js_sgn NegInf = - 1"
| "js_sgn NaN = 0"

definition js_inf :: "real \<Rightarrow> jsnum" where
  "js_inf s = (if s < 0 then NegInf else PosInf)"

fun js_neg :: "jsnum \<Rightarrow> jsnum" where
  "js_neg (Fin x) = Fin (- x)"
| "js_neg PosInf = NegInf"
| "js_neg NegInf = PosInf"
| "js_neg NaN = NaN"

fun js_add :: "jsnum \<Rightarrow> jsnum \<Rightarrow> jsnum" where
  "js_add NaN b = NaN"
| "js_add a NaN = NaN"
| "js_add (Fin x) (Fin y) = Fin (x + y)"
| "js_add PosInf NegInf = NaN"
| "js_add NegInf PosInf = NaN"
| "js_add PosInf b = PosInf"
| "js_add NegInf b = NegInf"
| "js_add (Fin x) b = b"

definition js_sub :: "jsnum \<Rightarrow> jsnum \<Rightarrow> jsnum" where
  "js_sub a b = js_add a (js_neg b)"

fun js_mul :: "jsnum \<Rightarrow> jsnum \<Rightarrow> jsnum" where
  "js_mul NaN b = NaN"
| "js_mul a NaN = NaN"
| "js_mul (Fin x) (Fin y) = Fin (x * y)"
| "js_mul a b =
     (if js_sgn a * js_sgn b = 0 then NaN else js_inf (js_sgn a * js_sgn b))"

fun js_div :: "jsnum \<Rightarrow> jsnum \<Rightarrow> jsnum" where
  "js_div NaN b = NaN"
| "js_div a NaN = NaN"
| "js_div (Fin x) (Fin y) =
     (if y = 0 then (if x = 0 then NaN else js_inf (sgn x)) else Fin (x / y))"
| "js_div (Fin x) b = Fin 0"
| "js_div a (Fin y) = js_inf (js_sgn a * (if y < 0 then - 1 else 1))"
| "js_div a b = NaN"

text \<open>\<^verbatim>\<open>a > b\<close>\<close>

fun js_gt :: "jsnum \<Rightarrow> jsnum \<Rightarrow> bool" where
  "js_gt NaN b = False"
| "js_gt a NaN = False"
| "js_gt (Fin x) (Fin y) = (y < x)"
| "js_gt PosInf b = (b \<noteq> PosInf)"
| "js_gt a NegInf = (a \<noteq> NegInf)"
| "js_gt a b = False"

text \<open>\<^verbatim>\<open>a <= b\<close>\<close>

fun js_le :: "jsnum \<Rightarrow> jsnum \<Rightarrow> bool" where
  "js_le NaN b = False"
| "js_le a NaN = False"
| "js_le a b = (\<not> js_gt a b)"

text \<open>\<^verbatim>\<open>Math.abs\<close>\<close>

fun js_abs :: "jsnum \<Rightarrow> jsnum" where
  "js_abs (Fin x) = Fin \<bar>x\<bar>"
| "js_abs NaN = NaN"
| "js_abs a = PosInf"

text \<open>The truth value of a number in a condition: \<^verbatim>\<open>!x\<close> is \<open>\<not> truthy x\<close>.\<close>

fun truthy :: "jsnum \<Rightarrow> bool" where
  "truthy (Fin x) = (x \<noteq> 0)"
| "truthy NaN = False"
| "truthy a = True"

section \<open>parseFloat\<close>

text \<open>
  \<^verbatim>\<open>parseFloat\<close> skips leading white space and reads the longest prefix that is a decimal
  literal: an optional sign, then \<^verbatim>\<open>Infinity\<close>, or digits with an optional fraction and
  an optional exponent. Without such a prefix the result is \<^verbatim>\<open>NaN\<close>. Strings are byte
  strings here, so only the ASCII white space characters are skipped.
\<close>

definition isDigit :: "char \<Rightarrow> bool" where
  "isDigit c = (48 \<le> (of_char c :: nat) \<and> (of_char c :: nat) \<le> 57)"

definition digitVal :: "char \<Rightarrow> nat" where
  "digitVal c = of_char c - 48"

definition digitsVal :: "string \<Rightarrow> nat" where
  "digitsVal ds = foldl (\<lambda>n c. 10 * n + digitVal c) 0 ds"

definition isWhiteSpace :: "char \<Rightarrow> bool" where
  "isWhiteSpace c = ((of_char c :: nat) \<in> {9, 10, 11, 12, 13, 32})"

fun splitSign :: "string \<Rightarrow> bool \<times> string" where
  "splitSign [] = (False, [])"
| "splitSign (c # cs) =
     (if c = CHR ''-'' then (True, cs)
      else if c = CHR ''+'' then (False, cs)
      else (False, c # cs))"

fun fractionPart :: "string \<Rightarrow> string \<times> string" where
  "fractionPart [] = ([], [])"
| "fractionPart (c # cs) =
     (if c = CHR ''.'' then (takeWhile isDigit cs, dropWhile isDigit cs)
      else ([], c # cs))"

fun exponentPart :: "string \<Rightarrow> int" where
  "exponentPart [] = 0"
| "exponentPart (c # cs) =
     (if c = CHR ''e'' \<or> c = CHR ''E'' then
        (case splitSign cs of (neg, ds) \<Rightarrow>
           (let ed = takeWhile isDigit ds in
            if ed = [] then 0
            else if neg then - int (digitsVal ed) else int (digitsVal ed)))
      else 0)"

definition scale10 :: "real \<Rightarrow> int \<Rightarrow> real" where
  "scale10 x e = (if 0 \<le> e then x * 10 ^ nat e else x / 10 ^ nat (- e))"

definition parseFloat :: "string \<Rightarrow> jsnum" where
  "parseFloat str =
     (case splitSign (dropWhile isWhiteSpace str) of (neg, u) \<Rightarrow>
        if prefix ''Infinity'' u then (if neg then NegInf else PosInf)
        else
          (let ip = takeWhile isDigit u;
               r1 = dropWhile isDigit u
           in case fractionPart r1 of (fp, r2) \<Rightarrow>
                if ip = [] \<and> fp = [] then NaN
                else
                  (let m = scale10 (real (digitsVal (ip @ fp)))
                             (exponentPart r2 - int (length fp))
                   in Fin (if neg then - m else m))))"

text \<open>\<^verbatim>\<open>x || d\<close> on a string field of a response; a field that is absent is the empty string.\<close>

definition or_default :: "string \<Rightarrow> string \<Rightarrow> string" where
  "or_default x d = (if x = [] then d else x)"

section \<open>The component's state\<close>

text \<open>An entry of the search results, of the trending list, and the selected pair.\<close>

record pair =
  symbol :: string
  baseSymbol :: string
  category :: string
  categoryLabel :: string
  minLeverage :: jsnum
  maxLeverage :: jsnum

text \<open>An entry of the trending list carries the ticker's figures as well.\<close>

record trending_pair = pair +
  lastPrice :: jsnum
  priceChangePercent :: jsnum
  volume24h :: jsnum
  isHot :: bool

record targets_rec =
  target1 :: string
  target2 :: string
  target3 :: string

text \<open>The \<^verbatim>\<open>useState\<close> cells of \<^verbatim>\<open>BybitLeverageCalculator\<close>; \<open>None\<close> is \<^verbatim>\<open>null\<close>.\<close>

record state =
  searchTerm :: string
  searchResults :: "pair list"
  selectedPair :: "pair option"
  loading :: bool
  error :: string
  currentPrice :: "jsnum option"
  previousPrice :: "jsnum option"
  priceChange :: "string option"
  lastUpdate :: "nat option"
  isLivePriceActive :: bool
  leverageInfo :: "(jsnum \<times> jsnum) option"
  trendingPairs :: "trending_pair list"
  loadingTrending :: bool
  trendingProgress :: int
  positionType :: string
  leverage :: jsnum
  entryAmount :: string
  targets :: targets_rec

definition initialState :: state where
  "initialState =
     \<lparr>searchTerm = [], searchResults = [], selectedPair = None, loading = False,
      error = [], currentPrice = None, previousPrice = None, priceChange = None,
      lastUpdate = None, isLivePriceActive = False, leverageInfo = None,
      trendingPairs = [], loadingTrending = False, trendingProgress = 100,
      positionType = ''Long'', leverage = Fin 1, entryAmount = [],
      targets = \<lparr>target1 = [], target2 = [], target3 = []\<rparr>\<rparr>"

section \<open>The calculation engine\<close>

record calc_result =
  target :: nat
  targetPrice :: jsnum
  pnl :: jsnum
  roi :: jsnum
  fees :: jsnum
  finalAmount :: jsnum

definition bybitFeeRate :: jsnum where
  "bybitFeeRate = Fin (6 / 10000)"

text \<open>\<^verbatim>\<open>targets[targetKey]\<close>; a key that is no field gives \<^verbatim>\<open>undefined\<close>, which parses like
  the empty string.\<close>

definition get_target :: "targets_rec \<Rightarrow> string \<Rightarrow> string" where
  "get_target ts k =
     (if k = ''target1'' then target1 ts
      else if k = ''target2'' then target2 ts
      else if k = ''target3'' then target3 ts
      else [])"

text \<open>The body of the \<^verbatim>\<open>forEach\<close> of \<^verbatim>\<open>calculateResults\<close>: what it pushes for one key.\<close>

definition target_result ::
  "state \<Rightarrow> jsnum \<Rightarrow> jsnum \<Rightarrow> jsnum \<Rightarrow> jsnum \<Rightarrow> nat \<times> string \<Rightarrow> calc_result list" where
  "target_result s cp entryAmountNum positionSize quantity ik =
     (case ik of (index, targetKey) \<Rightarrow>
        let targetPrice = parseFloat (get_target (targets s) targetKey) in
        if \<not> truthy targetPrice then []
        else
          let isLong = (positionType s = ''Long'');
              rawPnl = (if isLong then js_mul (js_sub targetPrice cp) quantity
                        else js_mul (js_sub cp targetPrice) quantity);
              entryFee = js_mul positionSize bybitFeeRate;
              exitFee = js_mul (js_mul quantity targetPrice) bybitFeeRate;
              totalFees = js_add entryFee exitFee;
              netPnl = js_sub rawPnl totalFees;
              roi' = js_mul (js_div netPnl entryAmountNum) (Fin 100)
          in [\<lparr>target = index + 1, targetPrice = targetPrice, pnl = netPnl,
               roi = roi', fees = totalFees,
               finalAmount = js_add entryAmountNum netPnl\<rparr>])"

definition calculateResults :: "state \<Rightarrow> calc_result list" where
  "calculateResults s =
     (case currentPrice s of
        None \<Rightarrow> []
      | Some cp \<Rightarrow>
          if selectedPair s = None \<or> \<not> truthy cp \<or> entryAmount s = []
             \<or> target1 (targets s) = []
          then []
          else
            let entryAmountNum = parseFloat (entryAmount s);
                positionSize = js_mul entryAmountNum (leverage s);
                quantity = js_div positionSize cp
            in concat (map (target_result s cp entryAmountNum positionSize quantity)
                         (enumerate 0 [''target1'', ''target2'', ''target3''])))"

section \<open>Responses of the market-data API\<close>

text \<open>
  An item of \<^verbatim>\<open>instruments-info\<close>. A string field that is absent is the empty string:
  the code reads such a field only through \<^verbatim>\<open>||\<close>, \<^verbatim>\<open>===\<close> with a non-empty string,
  \<^verbatim>\<open>endsWith\<close> or \<^verbatim>\<open>parseFloat\<close>, which do not tell the two apart.
\<close>

record leverage_filter =
  lf_minLeverage :: string
  lf_maxLeverage :: string

record instrument_item =
  item_symbol :: string
  item_status :: string
  item_leverageFilter :: "leverage_filter option"

text \<open>The decoded body: \<^verbatim>\<open>data.retCode\<close> and \<^verbatim>\<open>data?.result?.list\<close>.\<close>

record instruments_data =
  retCode :: int
  result_list :: "instrument_item list option"

text \<open>What one request of \<^verbatim>\<open>searchPromises\<close> resolves to: \<^verbatim>\<open>{category, data}\<close>, or
  \<^verbatim>\<open>{category, error}\<close> when the fetch or the decoding failed.\<close>

datatype fetch_outcome = Fetched instruments_data | Failed

record ticker_item =
  ticker_symbol :: string
  ticker_lastPrice :: string
  ticker_volume24h :: string
  ticker_price24hPcnt :: string

record tickers_data =
  tickers_retCode :: int
  tickers_list :: "ticker_item list option"

text \<open>The price request of \<^verbatim>\<open>selectPair\<close>: it throws (network, decoding, a missing
  \<^verbatim>\<open>result.list\<close>), or gives a code and the list of tickers.\<close>

datatype price_outcome = PriceThrows | PriceData int "ticker_item list"

definition usable_list :: "fetch_outcome \<Rightarrow> instrument_item list option" where
  "usable_list outcome =
     (case outcome of
        Failed \<Rightarrow> None
      | Fetched d \<Rightarrow> if retCode d = 0 then result_list d else None)"

definition leverage_ok :: "instrument_item \<Rightarrow> bool" where
  "leverage_ok item =
     (case item_leverageFilter item of
        None \<Rightarrow> False
      | Some lf \<Rightarrow> js_gt (parseFloat (lf_maxLeverage lf)) (Fin 1))"

definition item_minLeverage :: "instrument_item \<Rightarrow> jsnum" where
  "item_minLeverage item =
     parseFloat (case item_leverageFilter item of
                   None \<Rightarrow> ''1''
                 | Some lf \<Rightarrow> or_default (lf_minLeverage lf) ''1'')"

definition item_maxLeverage :: "instrument_item \<Rightarrow> jsnum" where
  "item_maxLeverage item =
     parseFloat (case item_leverageFilter item of
                   None \<Rightarrow> ''100''
                 | Some lf \<Rightarrow> or_default (lf_maxLeverage lf) ''100'')"

definition to_pair :: "string \<Rightarrow> instrument_item \<Rightarrow> pair" where
  "to_pair cat item =
     \<lparr>symbol = (if cat = ''linear'' then item_symbol item else item_symbol item @ ''.I''),
      baseSymbol = item_symbol item,
      category = cat,
      categoryLabel = (if cat = ''linear'' then ''USDT Perpetual'' else ''Inverse Perpetual''),
      minLeverage = item_minLeverage item,
      maxLeverage = item_maxLeverage item\<rparr>"

section \<open>Restoring the state from the URL\<close>

definition matches_url :: "string \<Rightarrow> instrument_item \<Rightarrow> bool" where
  "matches_url pairFromURL item =
     (item_symbol item = pairFromURL \<and> item_status item = ''Trading'' \<and> leverage_ok item)"

text \<open>The loop over the two results, with its \<^verbatim>\<open>break\<close>.\<close>

fun find_pair ::
  "string \<Rightarrow> (string \<times> fetch_outcome) list \<Rightarrow> (instrument_item \<times> string) option" where
  "find_pair pairFromURL [] = None"
| "find_pair pairFromURL ((cat, outcome) # rest) =
     (case usable_list outcome of
        None \<Rightarrow> find_pair pairFromURL rest
      | Some l \<Rightarrow>
          (case List.find (matches_url pairFromURL) l of
             Some item \<Rightarrow> Some (item, cat)
           | None \<Rightarrow> find_pair pairFromURL rest))"

text \<open>\<^verbatim>\<open>params.get(k)\<close> is \<open>None\<close> for \<^verbatim>\<open>null\<close>; \<^verbatim>\<open>if (v)\<close> wants a non-empty string.\<close>

type_synonym url_params = "string \<Rightarrow> string option"

definition param_or_empty :: "url_params \<Rightarrow> string \<Rightarrow> string" where
  "param_or_empty params k = (case params k of None \<Rightarrow> [] | Some v \<Rightarrow> v)"

definition searchPair ::
  "string \<Rightarrow> url_params \<Rightarrow> fetch_outcome \<Rightarrow> fetch_outcome \<Rightarrow> state \<Rightarrow> state" where
  "searchPair pairFromURL params linearOutcome inverseOutcome s =
     (case find_pair pairFromURL [(''linear'', linearOutcome), (''inverse'', inverseOutcome)] of
        None \<Rightarrow> s
      | Some (foundPair, foundCategory) \<Rightarrow>
          let pairObj = to_pair foundCategory foundPair;
              urlPosition = param_or_empty params ''position'';
              urlLeverage = param_or_empty params ''leverage'';
              urlEntry = param_or_empty params ''entry''
          in s\<lparr>selectedPair := Some pairObj,
               leverageInfo := Some (minLeverage pairObj, maxLeverage pairObj),
               positionType := (if urlPosition \<noteq> [] then urlPosition else positionType s),
               leverage := (if urlLeverage \<noteq> [] then parseFloat urlLeverage else leverage s),
               entryAmount := (if urlEntry \<noteq> [] then urlEntry else entryAmount s),
               targets := \<lparr>target1 = param_or_empty params ''t1'',
                           target2 = param_or_empty params ''t2'',
                           target3 = param_or_empty params ''t3''\<rparr>,
               isLivePriceActive := True\<rparr>)"

text \<open>The effect that runs once on mount.\<close>

definition loadStateFromURL ::
  "url_params \<Rightarrow> fetch_outcome \<Rightarrow> fetch_outcome \<Rightarrow> state \<Rightarrow> state" where
  "loadStateFromURL params linearOutcome inverseOutcome s =
     (let pairFromURL = param_or_empty params ''pair'' in
      if pairFromURL \<noteq> [] then searchPair pairFromURL params linearOutcome inverseOutcome s
      else s)"

section \<open>Selecting a pair, the leverage slider, reset\<close>

definition selectPair :: "pair \<Rightarrow> price_outcome \<Rightarrow> nat \<Rightarrow> state \<Rightarrow> state" where
  "selectPair p outcome now s =
     (let s1 = s\<lparr>selectedPair := Some p, searchResults := [], searchTerm := [],
                  leverageInfo := Some (minLeverage p, maxLeverage p),
                  leverage := minLeverage p, error := [],
                  currentPrice := None, previousPrice := None, priceChange := None,
                  lastUpdate := None\<rparr>
      in case outcome of
           PriceThrows \<Rightarrow>
             s1\<lparr>error := ''Unable to fetch current price. Please try again.'',
                currentPrice := None, isLivePriceActive := False\<rparr>
         | PriceData code l \<Rightarrow>
             (case l of
                t # ts \<Rightarrow>
                  if code = 0
                  then s1\<lparr>currentPrice := Some (parseFloat (ticker_lastPrice t)),
                          lastUpdate := Some now, isLivePriceActive := True\<rparr>
                  else s1\<lparr>error := ''Failed to fetch current price for this pair.'',
                          currentPrice := None, isLivePriceActive := False\<rparr>
              | [] \<Rightarrow>
                  s1\<lparr>error := ''Failed to fetch current price for this pair.'',
                     currentPrice := None, isLivePriceActive := False\<rparr>))"

text \<open>The \<^verbatim>\<open>onChange\<close> of the range input.\<close>

definition leverageSliderChange :: "string \<Rightarrow> state \<Rightarrow> state" where
  "leverageSliderChange v s = s\<lparr>leverage := parseFloat v\<rparr>"

definition resetToInitialState :: "state \<Rightarrow> state" where
  "resetToInitialState s =
     s\<lparr>selectedPair := None, currentPrice := None, previousPrice := None,
       priceChange := None, lastUpdate := None, isLivePriceActive := False,
       leverageInfo := None, positionType := ''Long'', leverage := Fin 1,
       entryAmount := [], targets := \<lparr>target1 = [], target2 = [], target3 = []\<rparr>,
       searchTerm := [], searchResults := [], loading := False, error := []\<rparr>"

text \<open>The bound the data model states for the leverage of a state with a selected
  instrument.\<close>

definition leverage_in_bounds :: "state \<Rightarrow> bool" where
  "leverage_in_bounds s =
     (case selectedPair s of
        None \<Rightarrow> True
      | Some p \<Rightarrow> js_le (minLeverage p) (leverage s) \<and> js_le (leverage s) (maxLeverage p))"

section \<open>Search\<close>

definition lowerChar :: "char \<Rightarrow> char" where
  "lowerChar c =
     (if 65 \<le> (of_char c :: nat) \<and> (of_char c :: nat) \<le> 90
      then char_of ((of_char c :: nat) + 32) else c)"

text \<open>\<^verbatim>\<open>toLowerCase\<close> on ASCII letters.\<close>

definition toLowerCase :: "string \<Rightarrow> string" where
  "toLowerCase str = map lowerChar str"

definition matches_search :: "string \<Rightarrow> instrument_item \<Rightarrow> bool" where
  "matches_search searchValue item =
     (let sym = item_symbol item;
          searchLower = toLowerCase searchValue;
          matchesSearch = (sublist searchLower (toLowerCase sym) \<and>
                           (suffix ''USDT'' sym \<or> suffix ''USD'' sym))
      in matchesSearch \<and> item_status item = ''Trading'' \<and> leverage_ok item)"

definition category_pairs :: "string \<Rightarrow> string \<times> fetch_outcome \<Rightarrow> pair list" where
  "category_pairs searchValue co =
     (case co of (cat, outcome) \<Rightarrow>
        (case usable_list outcome of
           None \<Rightarrow> []
         | Some l \<Rightarrow> map (to_pair cat) (filter (matches_search searchValue) l)))"

definition allPairs :: "string \<Rightarrow> fetch_outcome \<Rightarrow> fetch_outcome \<Rightarrow> pair list" where
  "allPairs searchValue linearOutcome inverseOutcome =
     concat (map (category_pairs searchValue)
               [(''linear'', linearOutcome), (''inverse'', inverseOutcome)])"

text \<open>One \<^verbatim>\<open>forEach\<close> over \<^verbatim>\<open>uniquePairs\<close> and \<^verbatim>\<open>seenSymbols\<close>.\<close>

fun add_unseen :: "pair list \<Rightarrow> pair list \<times> string set \<Rightarrow> pair list \<times> string set" where
  "add_unseen [] acc = acc"
| "add_unseen (p # ps) (uniq, seen) =
     (if baseSymbol p \<notin> seen
      then add_unseen ps (uniq @ [p], insert (baseSymbol p) seen)
      else add_unseen ps (uniq, seen))"

definition uniquePairs :: "pair list \<Rightarrow> pair list" where
  "uniquePairs ps =
     fst (add_unseen (filter (\<lambda>p. category p = ''inverse'') ps)
            (add_unseen (filter (\<lambda>p. category p = ''linear'') ps) ([], {})))"

definition finalResults :: "string \<Rightarrow> fetch_outcome \<Rightarrow> fetch_outcome \<Rightarrow> pair list" where
  "finalResults searchValue linearOutcome inverseOutcome =
     take 12 (uniquePairs (allPairs searchValue linearOutcome inverseOutcome))"

definition searchCryptoPairs ::
  "string \<Rightarrow> fetch_outcome \<Rightarrow> fetch_outcome \<Rightarrow> state \<Rightarrow> state" where
  "searchCryptoPairs searchValue linearOutcome inverseOutcome s =
     (let res = finalResults searchValue linearOutcome inverseOutcome in
      s\<lparr>searchResults := res,
        error := (if res = []
                  then ''No trading pairs found for '' @ [CHR 0x22] @ searchValue @
                       [CHR 0x22] @ ''. Try searching for popular coins like BTC, ETH, or SOL.''
                  else []),
        loading := False\<rparr>)"

section \<open>Trending pairs\<close>

text \<open>\<^verbatim>\<open>instrumentsMap\<close>: a later item of the list replaces an earlier one of the same symbol.\<close>

definition instrumentsMap :: "instrument_item list \<Rightarrow> (string \<rightharpoonup> jsnum \<times> jsnum)" where
  "instrumentsMap items =
     foldl (\<lambda>m item. m(item_symbol item \<mapsto> (item_minLeverage item, item_maxLeverage item)))
       Map.empty items"

definition trending_filter :: "(string \<rightharpoonup> jsnum \<times> jsnum) \<Rightarrow> ticker_item \<Rightarrow> bool" where
  "trending_filter m t =
     (suffix ''USDT'' (ticker_symbol t) \<and>
      js_gt (parseFloat (ticker_volume24h t)) (Fin 1000000) \<and>
      js_gt (parseFloat (ticker_lastPrice t)) (Fin 0) \<and>
      m (ticker_symbol t) \<noteq> None)"

text \<open>The \<^verbatim>\<open>map\<close> callback. It runs on tickers that passed the filter, whose symbol is a
  key of the map; the other case of the lookup is never taken.\<close>

definition trending_entry :: "(string \<rightharpoonup> jsnum \<times> jsnum) \<Rightarrow> ticker_item \<Rightarrow> trending_pair" where
  "trending_entry m t =
     (let info = (case m (ticker_symbol t) of Some i \<Rightarrow> i | None \<Rightarrow> (NaN, NaN));
          pcnt = parseFloat (or_default (ticker_price24hPcnt t) ''0'')
      in \<lparr>symbol = ticker_symbol t, baseSymbol = ticker_symbol t,
          category = ''linear'', categoryLabel = ''USDT Perpetual'',
          minLeverage = fst info, maxLeverage = snd info,
          lastPrice = parseFloat (ticker_lastPrice t),
          priceChangePercent = js_mul pcnt (Fin 100),
          volume24h = parseFloat (ticker_volume24h t),
          isHot = js_gt (js_abs pcnt) (Fin (5 / 100))\<rparr>)"

text \<open>\<^verbatim>\<open>sort((a, b) => b.volume24h - a.volume24h)\<close>: descending by volume, and stable.\<close>

fun insert_by_volume :: "trending_pair \<Rightarrow> trending_pair list \<Rightarrow> trending_pair list" where
  "insert_by_volume x [] = [x]"
| "insert_by_volume x (y # ys) =
     (if js_gt (volume24h y) (volume24h x) then y # insert_by_volume x ys
      else x # y # ys)"

definition sort_by_volume :: "trending_pair list \<Rightarrow> trending_pair list" where
  "sort_by_volume xs = foldr insert_by_volume xs []"

definition validPairs :: "ticker_item list \<Rightarrow> instrument_item list \<Rightarrow> trending_pair list" where
  "validPairs tickers items =
     (let m = instrumentsMap items in
      take 8 (sort_by_volume (map (trending_entry m) (filter (trending_filter m) tickers))))"

text \<open>The state after \<^verbatim>\<open>fetchTrendingPairs\<close> has run to its end; \<open>None\<close> for a request
  that threw.\<close>

definition fetchTrendingPairs ::
  "tickers_data option \<Rightarrow> instruments_data option \<Rightarrow> state \<Rightarrow> state" where
  "fetchTrendingPairs tickersData instrumentsData s =
     (let s1 = s\<lparr>trendingProgress := 100\<rparr> in
      case (tickersData, instrumentsData) of
        (Some td, Some idata) \<Rightarrow>
          if tickers_retCode td = 0 \<and> retCode idata = 0
          then s1\<lparr>trendingPairs :=
                    (case tickers_list td of
                       None \<Rightarrow> []
                     | Some tickers \<Rightarrow>
                         validPairs tickers
                           (case result_list idata of None \<Rightarrow> [] | Some l \<Rightarrow> l)),
                  loadingTrending := False\<rparr>
          else s1\<lparr>loadingTrending := False\<rparr>
      | _ \<Rightarrow> s1\<lparr>loadingTrending := False\<rparr>)"

section \<open>Typing into the inputs, and the price poll\<close>

text \<open>\<^verbatim>\<open>{...prev, [targetKey]: value}\<close>; the inputs call it with the three keys only.\<close>

definition handleTargetChange :: "string \<Rightarrow> string \<Rightarrow> state \<Rightarrow> state" where
  "handleTargetChange targetKey v s =
     s\<lparr>targets :=
         (if targetKey = ''target1'' then (targets s)\<lparr>target1 := v\<rparr>
          else if targetKey = ''target2'' then (targets s)\<lparr>target2 := v\<rparr>
          else if targetKey = ''target3'' then (targets s)\<lparr>target3 := v\<rparr>
          else targets s)\<rparr>"

definition setEntryAmount :: "string \<Rightarrow> state \<Rightarrow> state" where
  "setEntryAmount v s = s\<lparr>entryAmount := v\<rparr>"

text \<open>\<^verbatim>\<open>fetchCurrentPrice\<close> for the selected pair; a failure changes nothing.\<close>

definition fetchCurrentPrice :: "price_outcome \<Rightarrow> nat \<Rightarrow> state \<Rightarrow> state" where
  "fetchCurrentPrice outcome now s =
     (case outcome of
        PriceThrows \<Rightarrow> s
      | PriceData code l \<Rightarrow>
          (case l of
             [] \<Rightarrow> s
           | t # ts \<Rightarrow>
               if code = 0 then
                 let newPrice = parseFloat (ticker_lastPrice t);
                     s1 = (case currentPrice s of
                             None \<Rightarrow> s
                           | Some cur \<Rightarrow>
                               s\<lparr>previousPrice := Some cur,
                                 priceChange :=
                                   (if js_gt newPrice cur then Some ''up''
                                    else if js_gt cur newPrice then Some ''down''
                                    else priceChange s)\<rparr>)
                 in s1\<lparr>currentPrice := Some newPrice, lastUpdate := Some now, error := []\<rparr>
               else s))"

section \<open>Concrete inputs\<close>

definition btc :: pair where
  "btc = \<lparr>symbol = ''BTCUSDT'', baseSymbol = ''BTCUSDT'', category = ''linear'',
          categoryLabel = ''USDT Perpetual'', minLeverage = Fin 1, maxLeverage = Fin 100\<rparr>"

text \<open>The example of the specification: 1000 at leverage 10, long, from 50000 to 55000.\<close>

definition example_state :: state where
  "example_state =
     initialState\<lparr>selectedPair := Some btc, currentPrice := Some (Fin 50000),
                  leverage := Fin 10, entryAmount := ''1000'',
                  targets := \<lparr>target1 = ''55000'', target2 = [], target3 = []\<rparr>\<rparr>"

text \<open>Inputs typed into the form of the example.\<close>

definition negative_target_state :: state where
  "negative_target_state = handleTargetChange ''target1'' ''-5'' example_state"

definition zero_target2_state :: state where
  "zero_target2_state = handleTargetChange ''target2'' ''0'' example_state"

definition nonnumeric_entry_state :: state where
  "nonnumeric_entry_state = setEntryAmount ''abc'' example_state"

definition negative_entry_state :: state where
  "negative_entry_state = setEntryAmount ''-5'' example_state"

definition unparsed_target1_state :: state where
  "unparsed_target1_state =
     handleTargetChange ''target2'' ''60000'' (handleTargetChange ''target1'' ''abc'' example_state)"

definition zero_entry_state :: state where
  "zero_entry_state = setEntryAmount ''0'' example_state"

text \<open>A response of \<^verbatim>\<open>instruments-info\<close> and of \<^verbatim>\<open>tickers\<close>, and a page address
  whose leverage is zero, restored and followed by one price poll.\<close>

definition btc_item :: instrument_item where
  "btc_item = \<lparr>item_symbol = ''BTCUSDT'', item_status = ''Trading'',
               item_leverageFilter = Some \<lparr>lf_minLeverage = ''1'', lf_maxLeverage = ''100''\<rparr>\<rparr>"

definition linear_response :: fetch_outcome where
  "linear_response = Fetched \<lparr>retCode = 0, result_list = Some [btc_item]\<rparr>"

definition btc_ticker :: ticker_item where
  "btc_ticker = \<lparr>ticker_symbol = ''BTCUSDT'', ticker_lastPrice = ''50000'',
                 ticker_volume24h = ''2000000'', ticker_price24hPcnt = ''0.06''\<rparr>"

definition zero_leverage_params :: url_params where
  "zero_leverage_params =
     map_of [(''pair'', ''BTCUSDT''), (''leverage'', ''0''), (''entry'', ''1000''),
             (''t1'', ''55000'')]"

definition zero_leverage_state :: state where
  "zero_leverage_state =
     fetchCurrentPrice (PriceData 0 [btc_ticker]) 0
       (loadStateFromURL zero_leverage_params linear_response Failed initialState)"

text \<open>Page addresses: one names an instrument that is listed but not trading, one a
  leverage above the instrument's maximum.\<close>

definition closed_item :: instrument_item where
  "closed_item = \<lparr>item_symbol = ''LUNAUSDT'', item_status = ''Closed'',
               item_leverageFilter = Some \<lparr>lf_minLeverage = ''1'', lf_maxLeverage = ''25''\<rparr>\<rparr>"

definition two_items_response :: fetch_outcome where
  "two_items_response = Fetched \<lparr>retCode = 0, result_list = Some [btc_item, closed_item]\<rparr>"

definition untradable_params :: url_params where
  "untradable_params =
     map_of [(''pair'', ''LUNAUSDT''), (''position'', ''Short''), (''leverage'', ''5''),
             (''entry'', ''100''), (''t1'', ''2'')]"

definition high_leverage_params :: url_params where
  "high_leverage_params =
     map_of [(''pair'', ''BTCUSDT''), (''position'', ''Long''), (''leverage'', ''1000''),
             (''entry'', ''1000''), (''t1'', ''55000'')]"

definition high_leverage_state :: state where
  "high_leverage_state = loadStateFromURL high_leverage_params linear_response Failed initialState"

text \<open>Responses to a search, with one symbol listed in both categories.\<close>

definition ethusd_item :: instrument_item where
  "ethusd_item = \<lparr>item_symbol = ''ETHUSD'', item_status = ''Trading'',
               item_leverageFilter = Some \<lparr>lf_minLeverage = ''1'', lf_maxLeverage = ''50''\<rparr>\<rparr>"

definition btcusd_item :: instrument_item where
  "btcusd_item = \<lparr>item_symbol = ''BTCUSD'', item_status = ''Trading'',
               item_leverageFilter = Some \<lparr>lf_minLeverage = ''1'', lf_maxLeverage = ''100''\<rparr>\<rparr>"

definition search_linear :: fetch_outcome where
  "search_linear = Fetched \<lparr>retCode = 0, result_list = Some [btc_item, ethusd_item]\<rparr>"

definition search_inverse :: fetch_outcome where
  "search_inverse = Fetched \<lparr>retCode = 0, result_list = Some [ethusd_item, btcusd_item]\<rparr>"

text \<open>A ticker of the linear category whose symbol does not end in \<^verbatim>\<open>USDT\<close>.\<close>

definition perp_item :: instrument_item where
  "perp_item = \<lparr>item_symbol = ''BTCPERP'', item_status = ''Trading'',
               item_leverageFilter = Some \<lparr>lf_minLeverage = ''1'', lf_maxLeverage = ''100''\<rparr>\<rparr>"

definition perp_ticker :: ticker_item where
  "perp_ticker = \<lparr>ticker_symbol = ''BTCPERP'', ticker_lastPrice = ''50000'',
                 ticker_volume24h = ''9000000'', ticker_price24hPcnt = ''0.06''\<rparr>"

section \<open>Facts about parsing and about one slot of the results\<close>

lemmas parse_defs = parseFloat_def isDigit_def isWhiteSpace_def digitsVal_def digitVal_def
  scale10_def

lemma parseFloat_empty: "parseFloat [] = NaN"
  by (simp add: parseFloat_def)

lemma parse_1000: "parseFloat ''1000'' = Fin 1000"
  by (simp add: parse_defs)

lemma parse_55000: "parseFloat ''55000'' = Fin 55000"
  by (simp add: parse_defs)

lemma parse_60000: "parseFloat ''60000'' = Fin 60000"
  by (simp add: parse_defs)

lemma parse_0: "parseFloat ''0'' = Fin 0"
  by (simp add: parse_defs)

lemma parse_neg5: "parseFloat ''-5'' = Fin (- 5)"
  by (simp add: parse_defs)

lemma parse_abc: "parseFloat ''abc'' = NaN"
  by (simp add: parse_defs)

lemma parse_50000: "parseFloat ''50000'' = Fin 50000"
  by (simp add: parse_defs)

lemma parse_100: "parseFloat ''100'' = Fin 100"
  by (simp add: parse_defs)

lemma parse_1: "parseFloat ''1'' = Fin 1"
  by (simp add: parse_defs)

lemma parse_25: "parseFloat ''25'' = Fin 25"
  by (simp add: parse_defs)

lemma parse_50: "parseFloat ''50'' = Fin 50"
  by (simp add: parse_defs)

lemma parse_2000000: "parseFloat ''2000000'' = Fin 2000000"
  by (simp add: parse_defs)

lemma parse_9000000: "parseFloat ''9000000'' = Fin 9000000"
  by (simp add: parse_defs)

lemma parse_006: "parseFloat ''0.06'' = Fin 0.06"
  by (simp add: parse_defs)

lemma filter_target_result:
  "filter (\<lambda>r. target r = j) (target_result s cp e ps q (i, k)) =
     (if j = i + 1 then target_result s cp e ps q (i, k) else [])"
  by (auto simp: target_result_def Let_def)

lemma calculateResults_guard:
  "calculateResults s = [] \<or>
   (\<exists>cp. currentPrice s = Some cp \<and> truthy cp \<and> selectedPair s \<noteq> None \<and>
      entryAmount s \<noteq> [] \<and> target1 (targets s) \<noteq> [])"
  by (cases "currentPrice s") (auto simp: calculateResults_def)

text \<open>Past the guard, the entries of slot \<open>i + 1\<close> are what the loop body pushes for
  its key.\<close>

lemma calculateResults_slot:
  assumes "currentPrice s = Some cp" "truthy cp" "selectedPair s \<noteq> None"
    "entryAmount s \<noteq> []" "target1 (targets s) \<noteq> []"
    "(i, k) \<in> set (enumerate 0 [''target1'', ''target2'', ''target3''])"
  shows "filter (\<lambda>r. target r = i + 1) (calculateResults s) =
     target_result s cp (parseFloat (entryAmount s))
       (js_mul (parseFloat (entryAmount s)) (leverage s))
       (js_div (js_mul (parseFloat (entryAmount s)) (leverage s)) cp) (i, k)"
  using assms by (auto simp: calculateResults_def Let_def filter_target_result)

text \<open>On finite numbers with a non-zero price, entry amount and target, every operation
  of the loop body is the operation on reals.\<close>

lemma calculateResults_finite:
  assumes "selectedPair s \<noteq> None" "currentPrice s = Some (Fin c)" "c \<noteq> 0"
    "leverage s = Fin l" "parseFloat (entryAmount s) = Fin e" "e \<noteq> 0"
    "target1 (targets s) \<noteq> []"
    "(i, k) \<in> set (enumerate 0 [''target1'', ''target2'', ''target3''])"
    "parseFloat (get_target (targets s) k) = Fin t" "t \<noteq> 0"
  shows "filter (\<lambda>r. target r = i + 1) (calculateResults s) =
    [\<lparr>target = i + 1, targetPrice = Fin t,
      pnl = Fin ((if positionType s = ''Long'' then (t - c) * (e * l / c)
                  else (c - t) * (e * l / c))
                 - (e * l * 0.0006 + e * l / c * t * 0.0006)),
      roi = Fin (((if positionType s = ''Long'' then (t - c) * (e * l / c)
                   else (c - t) * (e * l / c))
                  - (e * l * 0.0006 + e * l / c * t * 0.0006)) / e * 100),
      fees = Fin (e * l * 0.0006 + e * l / c * t * 0.0006),
      finalAmount = Fin (e + ((if positionType s = ''Long'' then (t - c) * (e * l / c)
                               else (c - t) * (e * l / c))
                              - (e * l * 0.0006 + e * l / c * t * 0.0006)))\<rparr>]"
    (is "_ = ?rhs")
proof -
  have ne: "entryAmount s \<noteq> []"
    using assms(5) parseFloat_empty by auto
  have "filter (\<lambda>r. target r = i + 1) (calculateResults s) =
     target_result s (Fin c) (Fin e) (js_mul (Fin e) (Fin l))
       (js_div (js_mul (Fin e) (Fin l)) (Fin c)) (i, k)"
    using calculateResults_slot[of s "Fin c" i k] assms ne by simp
  also have "\<dots> = ?rhs"
    using assms(3,6,9,10)
    by (simp add: target_result_def Let_def js_sub_def bybitFeeRate_def)
  finally show ?thesis .
qed

section \<open>Facts about the concrete inputs\<close>

lemma find_btc:
  "find_pair ''BTCUSDT'' [(''linear'', linear_response), (''inverse'', Failed)] =
     Some (btc_item, ''linear'')"
  by (simp add: linear_response_def usable_list_def matches_url_def btc_item_def
      leverage_ok_def parse_100)

lemma to_pair_btc: "to_pair ''linear'' btc_item = btc"
  by (simp add: to_pair_def btc_item_def btc_def item_minLeverage_def item_maxLeverage_def
      or_default_def parse_1 parse_100)

lemma zero_leverage_state_eq:
  "zero_leverage_state =
     initialState\<lparr>selectedPair := Some btc, leverageInfo := Some (Fin 1, Fin 100),
       leverage := Fin 0, entryAmount := ''1000'',
       targets := \<lparr>target1 = ''55000'', target2 = [], target3 = []\<rparr>,
       isLivePriceActive := True, currentPrice := Some (Fin 50000),
       lastUpdate := Some 0\<rparr>"
  by (simp add: zero_leverage_state_def loadStateFromURL_def searchPair_def find_btc
      to_pair_btc zero_leverage_params_def param_or_empty_def Let_def parse_0
      fetchCurrentPrice_def btc_ticker_def parse_50000 initialState_def btc_def
      del: find_pair.simps)

lemma zero_leverage_results:
  "calculateResults zero_leverage_state =
     [\<lparr>target = 1, targetPrice = Fin 55000, pnl = Fin 0, roi = Fin 0, fees = Fin 0,
       finalAmount = Fin 1000\<rparr>]"
  by (simp add: zero_leverage_state_eq calculateResults_def initialState_def
      target_result_def get_target_def Let_def parse_1000 parse_55000 parseFloat_empty
      js_sub_def bybitFeeRate_def)

lemma negative_target_results:
  "calculateResults negative_target_state =
     [\<lparr>target = 1, targetPrice = Fin (- 5), pnl = Fin (- 10006.9994),
       roi = Fin (- 1000.69994), fees = Fin 5.9994, finalAmount = Fin (- 9006.9994)\<rparr>]"
  by (simp add: negative_target_state_def handleTargetChange_def example_state_def
      calculateResults_def initialState_def
      target_result_def get_target_def Let_def parse_1000 parse_neg5 parseFloat_empty
      js_sub_def bybitFeeRate_def)

lemma zero_target2_results:
  "calculateResults zero_target2_state =
     [\<lparr>target = 1, targetPrice = Fin 55000, pnl = Fin 987.4, roi = Fin 98.74,
       fees = Fin 12.6, finalAmount = Fin 1987.4\<rparr>]"
  by (simp add: zero_target2_state_def handleTargetChange_def example_state_def
      calculateResults_def initialState_def
      target_result_def get_target_def Let_def parse_1000 parse_55000 parse_0 parseFloat_empty
      js_sub_def bybitFeeRate_def)

lemma two_targets_results:
  "calculateResults (example_state\<lparr>targets :=
       (targets example_state)\<lparr>target2 := ''60000'', target3 := ''abc''\<rparr>\<rparr>) =
     [\<lparr>target = 1, targetPrice = Fin 55000, pnl = Fin 987.4, roi = Fin 98.74,
       fees = Fin 12.6, finalAmount = Fin 1987.4\<rparr>,
      \<lparr>target = 2, targetPrice = Fin 60000, pnl = Fin 1986.8, roi = Fin 198.68,
       fees = Fin 13.2, finalAmount = Fin 2986.8\<rparr>]"
  by (simp add: example_state_def
      calculateResults_def initialState_def
      target_result_def get_target_def Let_def parse_1000 parse_55000 parse_60000 parse_abc
      js_sub_def bybitFeeRate_def)

section \<open>Facts about the fee formula and about a zero entry amount\<close>

lemma fees_formula_mono:
  fixes e c t l l' :: real
  assumes "0 < e" "0 < c" "0 < t" "l < l'"
  shows "e * l * 0.0006 + e * l / c * t * 0.0006 < e * l' * 0.0006 + e * l' / c * t * 0.0006"
proof -
  define K where "K = e * 0.0006 * (1 + t / c)"
  have k: "0 < K"
    unfolding K_def using assms
    by (intro mult_pos_pos add_pos_pos divide_pos_pos) simp_all
  have eq: "e * x * 0.0006 + e * x / c * t * 0.0006 = x * K" for x
    unfolding K_def by (simp add: algebra_simps)
  have "l * K < l' * K"
    using assms(4) k by (rule mult_strict_right_mono)
  then show ?thesis
    by (simp only: eq)
qed

lemma fees_formula_pos:
  fixes e c t l :: real
  assumes "0 < e" "0 < c" "0 < t" "0 < l"
  shows "0 < e * l * 0.0006 + e * l / c * t * 0.0006"
  using assms by (simp add: add_pos_pos)

lemma zero_entry_slot:
  assumes "ps = Fin 0 \<or> ps = NaN" "q = Fin 0 \<or> q = NaN"
    "r \<in> set (target_result s (Fin c) (Fin 0) ps q ik)"
  shows "roi r = NaN"
proof -
  obtain i k where ik: "ik = (i, k)" by (cases ik)
  show ?thesis
    using assms unfolding ik
    by (cases "parseFloat (get_target (targets s) k)")
       (auto simp: target_result_def Let_def js_sub_def bybitFeeRate_def js_inf_def
          split: if_splits)
qed

section \<open>Facts about restoration and the leverage bound\<close>

lemma find_SomeD: "find P xs = Some x \<Longrightarrow> x \<in> set xs \<and> P x"
  by (induction xs) (auto split: if_splits)

lemma find_pair_None_iff:
  "find_pair u results = None \<longleftrightarrow>
     (\<forall>(cat, outcome) \<in> set results. \<forall>l. usable_list outcome = Some l \<longrightarrow>
        (\<forall>item \<in> set l. \<not> matches_url u item))"
  by (induction u results rule: find_pair.induct)
     (auto simp: find_None_iff split: option.splits dest: find_SomeD)

lemma high_leverage_state_eq:
  "high_leverage_state =
     initialState\<lparr>selectedPair := Some btc, leverageInfo := Some (Fin 1, Fin 100),
       leverage := Fin 1000, entryAmount := ''1000'',
       targets := \<lparr>target1 = ''55000'', target2 = [], target3 = []\<rparr>,
       isLivePriceActive := True\<rparr>"
  by (simp add: high_leverage_state_def loadStateFromURL_def searchPair_def find_btc
      to_pair_btc high_leverage_params_def param_or_empty_def Let_def parse_1000
      initialState_def btc_def
      del: find_pair.simps)

lemma js_le_refl: "js_le a b \<Longrightarrow> js_le a a"
  by (cases a; cases b) auto

section \<open>Facts about the search\<close>

lemma lower_eth: "toLowerCase ''ETHUSD'' = ''ethusd''" "toLowerCase ''eth'' = ''eth''"
  "toLowerCase ''BTCUSDT'' = ''btcusdt''" "toLowerCase ''BTCUSD'' = ''btcusd''"
  by code_simp+

lemma sub_eth: "sublist ''eth'' ''ethusd''" "\<not> sublist ''eth'' ''btcusdt''"
  "\<not> sublist ''eth'' ''btcusd''"
  by (simp_all add: sublist_Cons_right prefix_Cons)

lemma all_pairs_eth:
  "allPairs ''eth'' search_linear search_inverse =
    [\<lparr>symbol = ''ETHUSD'', baseSymbol = ''ETHUSD'', category = ''linear'',
      categoryLabel = ''USDT Perpetual'', minLeverage = Fin 1, maxLeverage = Fin 50\<rparr>,
     \<lparr>symbol = ''ETHUSD.I'', baseSymbol = ''ETHUSD'', category = ''inverse'',
      categoryLabel = ''Inverse Perpetual'', minLeverage = Fin 1, maxLeverage = Fin 50\<rparr>]"
  by (simp add: allPairs_def category_pairs_def search_linear_def search_inverse_def
      usable_list_def matches_search_def Let_def btc_item_def ethusd_item_def btcusd_item_def
      lower_eth sub_eth leverage_ok_def parse_50 parse_100 parse_1 to_pair_def
      item_minLeverage_def item_maxLeverage_def or_default_def suffix_def)

lemma final_eth:
  "finalResults ''eth'' search_linear search_inverse =
    [\<lparr>symbol = ''ETHUSD'', baseSymbol = ''ETHUSD'', category = ''linear'',
      categoryLabel = ''USDT Perpetual'', minLeverage = Fin 1, maxLeverage = Fin 50\<rparr>]"
  by (simp add: finalResults_def all_pairs_eth uniquePairs_def)

text \<open>The invariant of the two loops: the seen symbols are those of the pairs kept so
  far, no two of which share one, and a loop only appends pairs whose symbol was not seen.\<close>

lemma add_unseen_invariant:
  assumes "seen = baseSymbol ` set uniq" "distinct (map baseSymbol uniq)"
    "add_unseen ps (uniq, seen) = (uniq', seen')"
  shows "seen' = baseSymbol ` set uniq' \<and> distinct (map baseSymbol uniq')
    \<and> (\<exists>added. uniq' = uniq @ added \<and> set added \<subseteq> set ps
          \<and> (\<forall>p \<in> set added. baseSymbol p \<notin> seen))
    \<and> baseSymbol ` set ps \<subseteq> seen'"
  using assms
proof (induction ps arbitrary: uniq seen)
  case Nil
  then show ?case by auto
next
  case (Cons p ps)
  show ?case
  proof (cases "baseSymbol p \<in> seen")
    case True
    then have "add_unseen ps (uniq, seen) = (uniq', seen')"
      using Cons.prems(3) by simp
    from Cons.IH[OF Cons.prems(1,2) this] obtain added where
      a: "seen' = baseSymbol ` set uniq'" "distinct (map baseSymbol uniq')"
        "uniq' = uniq @ added" "set added \<subseteq> set ps"
        "\<forall>q \<in> set added. baseSymbol q \<notin> seen"
        "baseSymbol ` set ps \<subseteq> seen'"
      by blast
    have "set added \<subseteq> set (p # ps)" using a(4) by auto
    moreover have "baseSymbol p \<in> seen'"
      using True Cons.prems(1) a(1,3) by auto
    then have "baseSymbol ` set (p # ps) \<subseteq> seen'"
      using a(6) by simp
    ultimately show ?thesis using a(1,2,3,5) by blast
  next
    case False
    then have step: "add_unseen ps (uniq @ [p], insert (baseSymbol p) seen) = (uniq', seen')"
      using Cons.prems(3) by simp
    have inv: "insert (baseSymbol p) seen = baseSymbol ` set (uniq @ [p])"
      using Cons.prems(1) by auto
    have dist: "distinct (map baseSymbol (uniq @ [p]))"
      using Cons.prems(1,2) False by auto
    from Cons.IH[OF inv dist step] obtain added where
      a: "seen' = baseSymbol ` set uniq'" "distinct (map baseSymbol uniq')"
        "uniq' = (uniq @ [p]) @ added" "set added \<subseteq> set ps"
        "\<forall>q \<in> set added. baseSymbol q \<notin> insert (baseSymbol p) seen"
        "baseSymbol ` set ps \<subseteq> seen'"
      by blast
    have "uniq' = uniq @ (p # added)" using a(3) by simp
    moreover have "set (p # added) \<subseteq> set (p # ps)" using a(4) by auto
    moreover have "\<forall>q \<in> set (p # added). baseSymbol q \<notin> seen"
      using a(5) False by auto
    moreover have "baseSymbol ` set (p # ps) \<subseteq> seen'"
      using a(1,3,6) by auto
    ultimately show ?thesis using a(1,2) by blast
  qed
qed

lemma filter_distinct_key:
  assumes "distinct (map f xs)" "x \<in> set xs"
  shows "filter (\<lambda>y. f y = f x) xs = [x]"
  using assms
proof (induction xs)
  case Nil
  then show ?case by simp
next
  case (Cons a xs)
  show ?case
  proof (cases "a = x")
    case True
    have "\<forall>y \<in> set xs. f y \<noteq> f x"
      using Cons.prems(1) True by (force simp: image_iff)
    then have "filter (\<lambda>y. f y = f x) xs = []"
      by (simp add: filter_empty_conv)
    then show ?thesis using True by simp
  next
    case False
    then have "x \<in> set xs" using Cons.prems(2) by simp
    moreover have "f a \<noteq> f x"
      using Cons.prems(1) \<open>x \<in> set xs\<close> by (force simp: image_iff)
    ultimately show ?thesis using Cons by simp
  qed
qed

lemma uniquePairs_linear_first:
  assumes "pl \<in> set ps" "category pl = ''linear''"
  shows "\<exists>p. filter (\<lambda>q. baseSymbol q = baseSymbol pl) (uniquePairs ps) = [p]
           \<and> category p = ''linear'' \<and> p \<in> set ps"
proof -
  let ?L = "filter (\<lambda>p. category p = ''linear'') ps"
  let ?I = "filter (\<lambda>p. category p = ''inverse'') ps"
  obtain u1 s1 where r1: "add_unseen ?L ([], {}) = (u1, s1)"
    by (cases "add_unseen ?L ([], {})")
  obtain u2 s2 where r2: "add_unseen ?I (u1, s1) = (u2, s2)"
    by (cases "add_unseen ?I (u1, s1)")
  have i1: "s1 = baseSymbol ` set u1" "distinct (map baseSymbol u1)"
      "set u1 \<subseteq> set ?L" "baseSymbol ` set ?L \<subseteq> s1"
    using add_unseen_invariant[OF _ _ r1] by auto
  obtain added where i2: "distinct (map baseSymbol u2)" "u2 = u1 @ added"
      "\<forall>p \<in> set added. baseSymbol p \<notin> s1"
    using add_unseen_invariant[OF i1(1,2) r2] by auto
  have u: "uniquePairs ps = u2"
    by (simp add: uniquePairs_def r1 r2)
  have "baseSymbol pl \<in> s1"
    using assms i1(4) by auto
  then obtain p where p: "p \<in> set u1" "baseSymbol p = baseSymbol pl"
    using i1(1) by auto
  have "p \<in> set u2" using p(1) i2(2) by simp
  then have "filter (\<lambda>q. baseSymbol q = baseSymbol p) u2 = [p]"
    using filter_distinct_key[OF i2(1)] by blast
  moreover have "category p = ''linear''" "p \<in> set ps"
    using p(1) i1(3) by auto
  ultimately show ?thesis
    using u p(2) by auto
qed

lemma to_pair_fields:
  "baseSymbol (to_pair cat item) = item_symbol item" "category (to_pair cat item) = cat"
  by (simp_all add: to_pair_def)

lemma linear_match_in_allPairs:
  assumes "usable_list linearOutcome = Some ll" "il \<in> set ll" "matches_search sv il"
  shows "to_pair ''linear'' il \<in> set (allPairs sv linearOutcome inverseOutcome)"
  using assms by (auto simp: allPairs_def category_pairs_def)

lemma inverse_match_in_allPairs:
  assumes "usable_list inverseOutcome = Some li" "ii \<in> set li" "matches_search sv ii"
  shows "to_pair ''inverse'' ii \<in> set (allPairs sv linearOutcome inverseOutcome)"
  using assms by (auto simp: allPairs_def category_pairs_def)

section \<open>Facts about the trending list\<close>

lemma set_insert_by_volume: "set (insert_by_volume x xs) = insert x (set xs)"
  by (induction xs) auto

lemma set_sort_by_volume: "set (sort_by_volume xs) = set xs"
  unfolding sort_by_volume_def by (induction xs) (simp_all add: set_insert_by_volume)

lemma symbol_trending_entry: "symbol (trending_entry m t) = ticker_symbol t"
  by (simp add: trending_entry_def Let_def)

lemma validPairs_from_filter:
  assumes "p \<in> set (validPairs tickers items)"
  shows "\<exists>t \<in> set tickers. trending_filter (instrumentsMap items) t
           \<and> p = trending_entry (instrumentsMap items) t"
proof -
  have "p \<in> set (sort_by_volume (map (trending_entry (instrumentsMap items))
           (filter (trending_filter (instrumentsMap items)) tickers)))"
    using assms set_take_subset unfolding validPairs_def Let_def by fastforce
  then show ?thesis
    by (auto simp: set_sort_by_volume)
qed

lemma valid_pairs_example:
  "validPairs [btc_ticker, perp_ticker] [btc_item, perp_item] =
     [\<lparr>symbol = ''BTCUSDT'', baseSymbol = ''BTCUSDT'', category = ''linear'',
       categoryLabel = ''USDT Perpetual'', minLeverage = Fin 1, maxLeverage = Fin 100,
       lastPrice = Fin 50000, priceChangePercent = Fin 6, volume24h = Fin 2000000,
       isHot = True\<rparr>]"
  by (simp add: validPairs_def Let_def instrumentsMap_def btc_item_def perp_item_def
      btc_ticker_def perp_ticker_def trending_filter_def trending_entry_def
      item_minLeverage_def item_maxLeverage_def or_default_def parse_1 parse_100
      parse_2000000 parse_9000000 parse_50000 parse_006 sort_by_volume_def suffix_def)

section \<open>The claims\<close>

text \<open>
  C1. For a selected instrument, a current price \<open>c > 0\<close>, a leverage \<open>l > 0\<close>, an entry
  amount that parses to \<open>e > 0\<close> and a slot whose target parses to \<open>t > 0\<close>, the engine
  returns for that slot exactly one entry, with quantity \<open>e * l / c\<close>, raw profit
  \<open>(t - c) * quantity\<close> for Long and \<open>(c - t) * quantity\<close> otherwise, fees
  \<open>e * l * 0.0006 + quantity * t * 0.0006\<close>, net profit raw minus fees, return
  \<open>net / e * 100\<close> and final amount \<open>e + net\<close>. The arithmetic is that of the reals.
\<close>

theorem calculateResults_valid_input:
  assumes "selectedPair s = Some p" "currentPrice s = Some (Fin c)" "0 < c"
    "leverage s = Fin l" "0 < l" "parseFloat (entryAmount s) = Fin e" "0 < e"
    "target1 (targets s) \<noteq> []"
    "(i, k) \<in> set (enumerate 0 [''target1'', ''target2'', ''target3''])"
    "parseFloat (get_target (targets s) k) = Fin t" "0 < t"
  shows "filter (\<lambda>r. target r = i + 1) (calculateResults s) =
    [let quantity = e * l / c;
         rawPnl = (if positionType s = ''Long'' then (t - c) * quantity
                   else (c - t) * quantity);
         totalFees = e * l * 0.0006 + quantity * t * 0.0006;
         netPnl = rawPnl - totalFees
     in \<lparr>target = i + 1, targetPrice = Fin t, pnl = Fin netPnl,
         roi = Fin (netPnl / e * 100), fees = Fin totalFees,
         finalAmount = Fin (e + netPnl)\<rparr>]"
proof -
  have "selectedPair s \<noteq> None" "c \<noteq> 0" "e \<noteq> 0" "t \<noteq> 0"
    using assms by auto
  then show ?thesis
    using calculateResults_finite[of s c l e i k t] assms(2,4,6,8,9,10)
    by (simp add: Let_def)
qed

theorem calculateResults_valid_input_witness:
  "calculateResults example_state =
     [\<lparr>target = 1, targetPrice = Fin 55000, pnl = Fin 987.4, roi = Fin 98.74,
       fees = Fin 12.6, finalAmount = Fin 1987.4\<rparr>]
   \<and> filter (\<lambda>r. target r = 1) (calculateResults example_state) =
     [\<lparr>target = 1, targetPrice = Fin 55000, pnl = Fin 987.4, roi = Fin 98.74,
       fees = Fin 12.6, finalAmount = Fin 1987.4\<rparr>]"
proof -
  have h: "selectedPair example_state = Some btc"
      "currentPrice example_state = Some (Fin 50000)" "(0::real) < 50000"
      "leverage example_state = Fin 10" "(0::real) < 10"
      "parseFloat (entryAmount example_state) = Fin 1000" "(0::real) < 1000"
      "target1 (targets example_state) \<noteq> []"
      "(0, ''target1'') \<in> set (enumerate 0 [''target1'', ''target2'', ''target3''])"
      "parseFloat (get_target (targets example_state) ''target1'') = Fin 55000"
      "(0::real) < 55000"
    by (simp_all add: example_state_def initialState_def get_target_def parse_1000
        parse_55000)
  have slot: "filter (\<lambda>r. target r = 1) (calculateResults example_state) =
     [\<lparr>target = 1, targetPrice = Fin 55000, pnl = Fin 987.4, roi = Fin 98.74,
       fees = Fin 12.6, finalAmount = Fin 1987.4\<rparr>]"
    using calculateResults_valid_input[OF h]
    by (simp add: Let_def example_state_def initialState_def)
  have all: "\<forall>r \<in> set (calculateResults example_state). target r = 1"
    by (simp add: calculateResults_def example_state_def initialState_def
        target_result_def get_target_def Let_def parse_1000 parse_55000 parseFloat_empty)
  have "filter (\<lambda>r. target r = 1) (calculateResults example_state) =
      calculateResults example_state"
    using all by (simp add: filter_id_conv)
  then show ?thesis using slot by simp
qed

text \<open>
  C2, as the code has it. A slot gets no entry when its target is absent (the empty
  string) or parses to \<^verbatim>\<open>NaN\<close> or to zero: these are the values \<^verbatim>\<open>!targetPrice\<close> rejects.
  A negative target is not among them: typing \<^verbatim>\<open>-5\<close> as target 1 of the example gives an
  entry.
\<close>

theorem target_skipped:
  assumes "(i, k) \<in> set (enumerate 0 [''target1'', ''target2'', ''target3''])"
    "get_target (targets s) k = [] \<or> parseFloat (get_target (targets s) k) = NaN
       \<or> parseFloat (get_target (targets s) k) = Fin 0"
  shows "filter (\<lambda>r. target r = i + 1) (calculateResults s) = []"
proof -
  have nt: "\<not> truthy (parseFloat (get_target (targets s) k))"
    using assms(2) by (auto simp: parseFloat_empty)
  consider "calculateResults s = []"
    | cp where "currentPrice s = Some cp" "truthy cp" "selectedPair s \<noteq> None"
        "entryAmount s \<noteq> []" "target1 (targets s) \<noteq> []"
    using calculateResults_guard[of s] by blast
  then show ?thesis
  proof cases
    case 1
    then show ?thesis by simp
  next
    case 2
    then show ?thesis
      using calculateResults_slot[OF 2 assms(1)] nt
      by (simp add: target_result_def)
  qed
qed

theorem target_skipped_witness:
  "parseFloat (get_target (targets zero_target2_state) ''target2'') = Fin 0
   \<and> filter (\<lambda>r. target r = 2) (calculateResults zero_target2_state) = []
   \<and> calculateResults zero_target2_state \<noteq> []"
proof -
  have h1: "(1, ''target2'') \<in> set (enumerate 0 [''target1'', ''target2'', ''target3''])"
    by simp
  have p: "parseFloat (get_target (targets zero_target2_state) ''target2'') = Fin 0"
    by (simp add: zero_target2_state_def handleTargetChange_def get_target_def parse_0)
  then have h2: "get_target (targets zero_target2_state) ''target2'' = []
      \<or> parseFloat (get_target (targets zero_target2_state) ''target2'') = NaN
      \<or> parseFloat (get_target (targets zero_target2_state) ''target2'') = Fin 0"
    by simp
  show ?thesis
    using target_skipped[OF h1 h2] p by (simp add: zero_target2_results)
qed

theorem negative_target_counterexample:
  "parseFloat (get_target (targets negative_target_state) ''target1'') = Fin (- 5)
   \<and> filter (\<lambda>r. target r = 1) (calculateResults negative_target_state) =
     [\<lparr>target = 1, targetPrice = Fin (- 5), pnl = Fin (- 10006.9994),
       roi = Fin (- 1000.69994), fees = Fin 5.9994, finalAmount = Fin (- 9006.9994)\<rparr>]"
  by (simp add: negative_target_results)
     (simp add: negative_target_state_def handleTargetChange_def example_state_def
       get_target_def parse_neg5)

text \<open>
  C3, as the code has it. The engine returns no entry at all when no instrument is
  selected, when the current price is \<^verbatim>\<open>null\<close>, \<^verbatim>\<open>NaN\<close> or zero, when the entry amount
  is the empty string, or when target 1 is the empty string. The guard tests the two
  strings for emptiness only: the entry amounts \<^verbatim>\<open>abc\<close> and \<^verbatim>\<open>-5\<close> both give an entry,
  and with target 1 \<^verbatim>\<open>abc\<close> the entry of target 2 is still computed.
\<close>

theorem no_results_without_inputs:
  assumes "selectedPair s = None \<or> currentPrice s = None
     \<or> currentPrice s = Some NaN \<or> currentPrice s = Some (Fin 0)
     \<or> entryAmount s = [] \<or> target1 (targets s) = []"
  shows "calculateResults s = []"
  using assms by (auto simp: calculateResults_def split: option.splits)

theorem no_results_without_inputs_witness:
  "entryAmount (setEntryAmount [] example_state) = []
   \<and> calculateResults (setEntryAmount [] example_state) = []
   \<and> calculateResults example_state \<noteq> []"
proof -
  have h: "selectedPair (setEntryAmount [] example_state) = None
     \<or> currentPrice (setEntryAmount [] example_state) = None
     \<or> currentPrice (setEntryAmount [] example_state) = Some NaN
     \<or> currentPrice (setEntryAmount [] example_state) = Some (Fin 0)
     \<or> entryAmount (setEntryAmount [] example_state) = []
     \<or> target1 (targets (setEntryAmount [] example_state)) = []"
    by (simp add: setEntryAmount_def)
  have ex: "calculateResults example_state \<noteq> []"
    by (simp add: calculateResults_def example_state_def initialState_def
        target_result_def get_target_def Let_def parse_1000 parse_55000 parseFloat_empty)
  show ?thesis
    using no_results_without_inputs[OF h] ex by (simp add: setEntryAmount_def)
qed

theorem invalid_entry_counterexample:
  "parseFloat (entryAmount nonnumeric_entry_state) = NaN
   \<and> calculateResults nonnumeric_entry_state =
       [\<lparr>target = 1, targetPrice = Fin 55000, pnl = NaN, roi = NaN, fees = NaN,
         finalAmount = NaN\<rparr>]
   \<and> parseFloat (entryAmount negative_entry_state) = Fin (- 5)
   \<and> calculateResults negative_entry_state =
       [\<lparr>target = 1, targetPrice = Fin 55000, pnl = Fin (- 4.937), roi = Fin 98.74,
         fees = Fin (- 0.063), finalAmount = Fin (- 9.937)\<rparr>]
   \<and> parseFloat (target1 (targets unparsed_target1_state)) = NaN
   \<and> calculateResults unparsed_target1_state =
       [\<lparr>target = 2, targetPrice = Fin 60000, pnl = Fin 1986.8, roi = Fin 198.68,
         fees = Fin 13.2, finalAmount = Fin 2986.8\<rparr>]"
  by (simp add: nonnumeric_entry_state_def negative_entry_state_def setEntryAmount_def
      unparsed_target1_state_def handleTargetChange_def example_state_def
      calculateResults_def initialState_def
      target_result_def get_target_def Let_def parse_abc parse_55000 parse_neg5 parse_1000
      parse_60000 parseFloat_empty js_sub_def bybitFeeRate_def)

text \<open>
  C6. Two runs that differ only in target 2 and target 3 give the same entry (or the
  same absence of an entry) for target 1.
\<close>

theorem target1_independent:
  "filter (\<lambda>r. target r = 1)
     (calculateResults (s\<lparr>targets := (targets s)\<lparr>target2 := a, target3 := b\<rparr>\<rparr>)) =
   filter (\<lambda>r. target r = 1) (calculateResults s)"
  by (simp add: calculateResults_def Let_def filter_target_result target_result_def
      get_target_def split: option.splits)

theorem target1_independent_witness:
  "filter (\<lambda>r. target r = 1)
     (calculateResults (example_state\<lparr>targets :=
        (targets example_state)\<lparr>target2 := ''60000'', target3 := ''abc''\<rparr>\<rparr>)) =
   filter (\<lambda>r. target r = 1) (calculateResults example_state)
   \<and> length (calculateResults (example_state\<lparr>targets :=
        (targets example_state)\<lparr>target2 := ''60000'', target3 := ''abc''\<rparr>\<rparr>)) = 2
   \<and> length (filter (\<lambda>r. target r = 1) (calculateResults example_state)) = 1"
proof -
  have ex: "calculateResults example_state =
     [\<lparr>target = 1, targetPrice = Fin 55000, pnl = Fin 987.4, roi = Fin 98.74,
       fees = Fin 12.6, finalAmount = Fin 1987.4\<rparr>]"
    by (simp add: calculateResults_def example_state_def initialState_def
        target_result_def get_target_def Let_def parse_1000 parse_55000 parseFloat_empty
        js_sub_def bybitFeeRate_def)
  show ?thesis
    using target1_independent[where s = example_state and a = "''60000''" and b = "''abc''"]
    by (simp add: two_targets_results ex)
qed

text \<open>
  C7, as the code has it. With an entry amount, a current price and a target that are
  positive, the fees of a slot strictly increase with the leverage, and they are
  positive when the leverage is positive. At leverage zero, which a page address can
  restore, the fees are zero.
\<close>

theorem fees_positive_increasing:
  assumes "selectedPair s = Some p" "currentPrice s = Some (Fin c)" "0 < c"
    "parseFloat (entryAmount s) = Fin e" "0 < e"
    "target1 (targets s) \<noteq> []"
    "(i, k) \<in> set (enumerate 0 [''target1'', ''target2'', ''target3''])"
    "parseFloat (get_target (targets s) k) = Fin t" "0 < t"
    "l < l'"
  shows "\<exists>f f'.
     map fees (filter (\<lambda>r. target r = i + 1) (calculateResults (s\<lparr>leverage := Fin l\<rparr>)))
       = [Fin f]
     \<and> map fees (filter (\<lambda>r. target r = i + 1) (calculateResults (s\<lparr>leverage := Fin l'\<rparr>)))
       = [Fin f']
     \<and> f < f' \<and> (0 < l \<longrightarrow> 0 < f)"
proof -
  let ?f = "\<lambda>l. e * l * 0.0006 + e * l / c * t * 0.0006"
  have nz: "c \<noteq> 0" "e \<noteq> 0" "t \<noteq> 0" using assms by auto
  have at: "map fees (filter (\<lambda>r. target r = i + 1)
      (calculateResults (s\<lparr>leverage := Fin x\<rparr>))) = [Fin (?f x)]" for x
    using calculateResults_finite[of "s\<lparr>leverage := Fin x\<rparr>" c x e i k t] assms nz
    by simp
  have "?f l < ?f l'"
    using fees_formula_mono[OF assms(5,3,9,10)] .
  moreover have "0 < l \<longrightarrow> 0 < ?f l"
    using fees_formula_pos[OF assms(5,3,9)] by blast
  ultimately have "map fees (filter (\<lambda>r. target r = i + 1)
        (calculateResults (s\<lparr>leverage := Fin l\<rparr>))) = [Fin (?f l)]
     \<and> map fees (filter (\<lambda>r. target r = i + 1)
        (calculateResults (s\<lparr>leverage := Fin l'\<rparr>))) = [Fin (?f l')]
     \<and> ?f l < ?f l' \<and> (0 < l \<longrightarrow> 0 < ?f l)"
    using at[of l] at[of l'] by simp
  then show ?thesis
    by (intro exI[of _ "?f l"] exI[of _ "?f l'"])
qed

theorem fees_positive_increasing_witness:
  "map fees (filter (\<lambda>r. target r = 1) (calculateResults (example_state\<lparr>leverage := Fin 10\<rparr>)))
     = [Fin 12.6]
   \<and> map fees (filter (\<lambda>r. target r = 1) (calculateResults (example_state\<lparr>leverage := Fin 20\<rparr>)))
     = [Fin 25.2]"
proof -
  have h: "selectedPair example_state = Some btc"
      "currentPrice example_state = Some (Fin 50000)" "(0::real) < 50000"
      "parseFloat (entryAmount example_state) = Fin 1000" "(0::real) < 1000"
      "target1 (targets example_state) \<noteq> []"
      "(0, ''target1'') \<in> set (enumerate 0 [''target1'', ''target2'', ''target3''])"
      "parseFloat (get_target (targets example_state) ''target1'') = Fin 55000"
      "(0::real) < 55000" "(10::real) < 20"
    by (simp_all add: example_state_def initialState_def get_target_def parse_1000
        parse_55000)
  obtain f f' where
    a: "map fees (filter (\<lambda>r. target r = 0 + 1)
          (calculateResults (example_state\<lparr>leverage := Fin 10\<rparr>))) = [Fin f]"
    and b: "map fees (filter (\<lambda>r. target r = 0 + 1)
          (calculateResults (example_state\<lparr>leverage := Fin 20\<rparr>))) = [Fin f']"
    and "f < f'" "0 < (10::real) \<longrightarrow> 0 < f"
    using fees_positive_increasing[OF h] by auto
  have "calculateResults (example_state\<lparr>leverage := Fin 10\<rparr>) =
     [\<lparr>target = 1, targetPrice = Fin 55000, pnl = Fin 987.4, roi = Fin 98.74,
       fees = Fin 12.6, finalAmount = Fin 1987.4\<rparr>]"
    by (simp add: calculateResults_def example_state_def initialState_def
        target_result_def get_target_def Let_def parse_1000 parse_55000 parseFloat_empty
        js_sub_def bybitFeeRate_def)
  moreover have "calculateResults (example_state\<lparr>leverage := Fin 20\<rparr>) =
     [\<lparr>target = 1, targetPrice = Fin 55000, pnl = Fin 1974.8, roi = Fin 197.48,
       fees = Fin 25.2, finalAmount = Fin 2974.8\<rparr>]"
    by (simp add: calculateResults_def example_state_def initialState_def
        target_result_def get_target_def Let_def parse_1000 parse_55000 parseFloat_empty
        js_sub_def bybitFeeRate_def)
  ultimately show ?thesis using a b by simp
qed

theorem zero_leverage_fees_counterexample:
  "parseFloat (entryAmount zero_leverage_state) = Fin 1000
   \<and> currentPrice zero_leverage_state = Some (Fin 50000)
   \<and> leverage zero_leverage_state = Fin 0
   \<and> calculateResults zero_leverage_state =
     [\<lparr>target = 1, targetPrice = Fin 55000, pnl = Fin 0, roi = Fin 0, fees = Fin 0,
       finalAmount = Fin 1000\<rparr>]"
  by (simp add: zero_leverage_results)
     (simp add: zero_leverage_state_eq parse_1000)

text \<open>
  C9. An entry amount that parses to zero (the input \<^verbatim>\<open>0\<close> is not the empty string) with
  an instrument, a positive current price and a positive target 1 gives entries, and
  the return of every entry is \<^verbatim>\<open>NaN\<close>: the division by the entry amount is \<^verbatim>\<open>0/0\<close>.
\<close>

theorem zero_entry_roi_nan:
  assumes "selectedPair s = Some p" "currentPrice s = Some (Fin c)" "0 < c"
    "parseFloat (entryAmount s) = Fin 0"
    "parseFloat (target1 (targets s)) = Fin t" "0 < t"
  shows "entryAmount s \<noteq> [] \<and> calculateResults s \<noteq> []
    \<and> (\<forall>r \<in> set (calculateResults s). roi r = NaN)"
proof -
  have t1: "target1 (targets s) \<noteq> []"
    using assms(5) parseFloat_empty by auto
  have e1: "entryAmount s \<noteq> []"
    using assms(4) parseFloat_empty by auto
  let ?ps = "js_mul (Fin 0) (leverage s)"
  let ?q = "js_div ?ps (Fin c)"
  have ps: "?ps = Fin 0 \<or> ?ps = NaN"
    by (cases "leverage s") auto
  then have q: "?q = Fin 0 \<or> ?q = NaN"
    using assms(3) by auto
  have eq: "calculateResults s =
      concat (map (target_result s (Fin c) (Fin 0) ?ps ?q)
        (enumerate 0 [''target1'', ''target2'', ''target3'']))"
    using assms t1 e1 by (simp add: calculateResults_def Let_def)
  have "\<forall>r \<in> set (calculateResults s). roi r = NaN"
    unfolding eq using zero_entry_slot[OF ps q] by auto
  moreover have "target_result s (Fin c) (Fin 0) ?ps ?q (0, ''target1'') \<noteq> []"
    using assms(5,6) by (simp add: target_result_def get_target_def Let_def)
  then have "calculateResults s \<noteq> []"
    unfolding eq by simp
  ultimately show ?thesis using e1 by simp
qed

theorem zero_entry_roi_nan_witness:
  "entryAmount zero_entry_state = ''0''
   \<and> calculateResults zero_entry_state =
     [\<lparr>target = 1, targetPrice = Fin 55000, pnl = Fin 0, roi = NaN, fees = Fin 0,
       finalAmount = Fin 0\<rparr>]"
proof -
  have h: "selectedPair zero_entry_state = Some btc"
      "currentPrice zero_entry_state = Some (Fin 50000)" "(0::real) < 50000"
      "parseFloat (entryAmount zero_entry_state) = Fin 0"
      "parseFloat (target1 (targets zero_entry_state)) = Fin 55000"
      "(0::real) < 55000"
    by (simp_all add: zero_entry_state_def setEntryAmount_def example_state_def
        initialState_def parse_0 parse_55000)
  have ev: "calculateResults zero_entry_state =
     [\<lparr>target = 1, targetPrice = Fin 55000, pnl = Fin 0, roi = NaN, fees = Fin 0,
       finalAmount = Fin 0\<rparr>]"
    by (simp add: zero_entry_state_def setEntryAmount_def
        calculateResults_def example_state_def initialState_def
        target_result_def get_target_def Let_def parse_0 parse_55000 parseFloat_empty
        js_sub_def bybitFeeRate_def)
  show ?thesis
    using zero_entry_roi_nan[OF h] ev
    by (simp add: zero_entry_state_def setEntryAmount_def)
qed

text \<open>
  C4, as the code has it. \<^verbatim>\<open>selectPair\<close> sets the leverage to the instrument's minimum,
  which is within the bounds when the minimum is at most the maximum; a slider value
  within the bounds of the selected instrument keeps the leverage within them; after a
  reset no instrument is selected. Restoration is not among these operations: it stores
  the leverage of the page address without comparing it with the bounds, so an address
  with leverage 1000 for an instrument whose maximum is 100 leaves the bound broken.
\<close>

theorem leverage_bounds_kept:
  "(js_le (minLeverage p) (maxLeverage p) \<longrightarrow>
      leverage_in_bounds (selectPair p outcome now s))
   \<and> (selectedPair s = Some q \<and> js_le (minLeverage q) (parseFloat v)
        \<and> js_le (parseFloat v) (maxLeverage q) \<longrightarrow>
      leverage_in_bounds (leverageSliderChange v s))
   \<and> leverage_in_bounds (resetToInitialState s)"
proof -
  have sel: "selectedPair (selectPair p outcome now s) = Some p"
      "leverage (selectPair p outcome now s) = minLeverage p"
    by (auto simp: selectPair_def Let_def split: price_outcome.splits list.splits)
  have "js_le (minLeverage p) (maxLeverage p) \<Longrightarrow>
      leverage_in_bounds (selectPair p outcome now s)"
    using sel js_le_refl[of "minLeverage p" "maxLeverage p"]
    by (simp add: leverage_in_bounds_def)
  then show ?thesis
    by (auto simp: leverage_in_bounds_def leverageSliderChange_def resetToInitialState_def)
qed

theorem leverage_bounds_kept_witness:
  "leverage_in_bounds (selectPair btc (PriceData 0 [btc_ticker]) 0 initialState)
   \<and> leverage (selectPair btc (PriceData 0 [btc_ticker]) 0 initialState) = Fin 1
   \<and> leverage_in_bounds (leverageSliderChange ''25''
        (selectPair btc (PriceData 0 [btc_ticker]) 0 initialState))
   \<and> leverage (leverageSliderChange ''25''
        (selectPair btc (PriceData 0 [btc_ticker]) 0 initialState)) = Fin 25"
proof -
  let ?s = "selectPair btc (PriceData 0 [btc_ticker]) 0 initialState"
  have a: "js_le (minLeverage btc) (maxLeverage btc)"
    by (simp add: btc_def)
  have b: "selectedPair ?s = Some btc \<and> js_le (minLeverage btc) (parseFloat ''25'')
        \<and> js_le (parseFloat ''25'') (maxLeverage btc)"
    by (simp add: selectPair_def Let_def btc_def parse_25)
  have c: "leverage_in_bounds ?s"
    using leverage_bounds_kept[of btc "PriceData 0 [btc_ticker]" 0 initialState] a by blast
  have d: "leverage_in_bounds (leverageSliderChange ''25'' ?s)"
    using leverage_bounds_kept[of _ _ _ ?s btc "''25''"] b by blast
  show ?thesis
    using c d by (simp add: selectPair_def Let_def btc_def leverageSliderChange_def parse_25)
qed

theorem restored_leverage_counterexample:
  "selectedPair high_leverage_state = Some btc
   \<and> maxLeverage btc = Fin 100
   \<and> leverage high_leverage_state = Fin 1000
   \<and> \<not> leverage_in_bounds high_leverage_state"
  by (simp add: high_leverage_state_eq leverage_in_bounds_def)
     (simp add: btc_def)

text \<open>
  C5. When no item of a usable response has the symbol of the page address, the status
  \<^verbatim>\<open>Trading\<close> and a maximum leverage above 1, restoration changes no field of the
  state: started in the initial state, the component stays in it.
\<close>

theorem restoration_unresolved:
  assumes "param_or_empty params ''pair'' = pairFromURL"
    "\<forall>outcome \<in> {linearOutcome, inverseOutcome}. \<forall>l. usable_list outcome = Some l \<longrightarrow>
        (\<forall>item \<in> set l. \<not> (item_symbol item = pairFromURL \<and> item_status item = ''Trading''
            \<and> leverage_ok item))"
  shows "searchPair pairFromURL params linearOutcome inverseOutcome s = s
    \<and> loadStateFromURL params linearOutcome inverseOutcome s = s"
proof -
  have "find_pair pairFromURL [(''linear'', linearOutcome), (''inverse'', inverseOutcome)] = None"
    unfolding find_pair_None_iff using assms(2) by (simp add: matches_url_def)
  then have "searchPair pairFromURL params linearOutcome inverseOutcome s = s"
    by (simp add: searchPair_def)
  then show ?thesis
    using assms(1) by (simp add: loadStateFromURL_def Let_def)
qed

theorem restoration_unresolved_witness:
  "param_or_empty untradable_params ''pair'' = ''LUNAUSDT''
   \<and> closed_item \<in> set [btc_item, closed_item]
   \<and> loadStateFromURL untradable_params two_items_response Failed initialState = initialState"
proof -
  have h1: "param_or_empty untradable_params ''pair'' = ''LUNAUSDT''"
    by (simp add: untradable_params_def param_or_empty_def)
  have h2: "\<forall>outcome \<in> {two_items_response, Failed}. \<forall>l. usable_list outcome = Some l \<longrightarrow>
        (\<forall>item \<in> set l. \<not> (item_symbol item = ''LUNAUSDT'' \<and> item_status item = ''Trading''
            \<and> leverage_ok item))"
    by (simp add: two_items_response_def usable_list_def btc_item_def closed_item_def)
  show ?thesis
    using restoration_unresolved[OF h1 h2, of initialState] h1 by simp
qed

text \<open>
  C8. When an item of the linear response and an item of the inverse response have the
  same symbol and both match the query, the deduplicated list holds exactly one pair
  of that symbol and it is a linear one: the inverse pair is among the matches and is
  dropped. No inverse pair of that symbol is in the final results, and the final
  results, as stored in the state, have at most 12 entries.
\<close>

theorem search_dedup_linear:
  assumes "usable_list linearOutcome = Some ll" "il \<in> set ll" "matches_search sv il"
    "usable_list inverseOutcome = Some li" "ii \<in> set li" "matches_search sv ii"
    "item_symbol ii = item_symbol il"
  shows "(\<exists>p. filter (\<lambda>q. baseSymbol q = item_symbol il)
               (uniquePairs (allPairs sv linearOutcome inverseOutcome)) = [p]
            \<and> category p = ''linear'')
    \<and> to_pair ''inverse'' ii \<in> set (allPairs sv linearOutcome inverseOutcome)
    \<and> to_pair ''inverse'' ii \<notin> set (uniquePairs (allPairs sv linearOutcome inverseOutcome))
    \<and> (\<forall>q \<in> set (finalResults sv linearOutcome inverseOutcome).
          baseSymbol q = item_symbol il \<longrightarrow> category q = ''linear'')
    \<and> length (finalResults sv linearOutcome inverseOutcome) \<le> 12
    \<and> length (searchResults (searchCryptoPairs sv linearOutcome inverseOutcome s)) \<le> 12"
proof -
  let ?all = "allPairs sv linearOutcome inverseOutcome"
  have "to_pair ''linear'' il \<in> set ?all"
    using linear_match_in_allPairs[OF assms(1,2,3)] .
  from uniquePairs_linear_first[OF this] obtain p where
    p: "filter (\<lambda>q. baseSymbol q = item_symbol il) (uniquePairs ?all) = [p]"
      "category p = ''linear''"
    by (auto simp: to_pair_fields)
  have only: "\<forall>q \<in> set (uniquePairs ?all). baseSymbol q = item_symbol il \<longrightarrow> q = p"
  proof (intro ballI impI)
    fix q assume "q \<in> set (uniquePairs ?all)" "baseSymbol q = item_symbol il"
    then have "q \<in> set (filter (\<lambda>q. baseSymbol q = item_symbol il) (uniquePairs ?all))"
      by simp
    then show "q = p" unfolding p(1) by simp
  qed
  have inv: "to_pair ''inverse'' ii \<in> set ?all"
    using inverse_match_in_allPairs[OF assms(4,5,6)] .
  have "to_pair ''inverse'' ii \<notin> set (uniquePairs ?all)"
  proof
    assume "to_pair ''inverse'' ii \<in> set (uniquePairs ?all)"
    then have "to_pair ''inverse'' ii = p"
      using only assms(7) by (simp add: to_pair_fields)
    then show False
      using p(2) to_pair_fields(2)[of "''inverse''" ii] by simp
  qed
  moreover have "set (finalResults sv linearOutcome inverseOutcome) \<subseteq> set (uniquePairs ?all)"
    by (simp add: finalResults_def set_take_subset)
  then have "\<forall>q \<in> set (finalResults sv linearOutcome inverseOutcome).
          baseSymbol q = item_symbol il \<longrightarrow> category q = ''linear''"
    using only p(2) by blast
  moreover have "length (finalResults sv linearOutcome inverseOutcome) \<le> 12"
    by (simp add: finalResults_def)
  ultimately show ?thesis
    using p inv by (auto simp: searchCryptoPairs_def Let_def)
qed

theorem search_dedup_linear_witness:
  "allPairs ''eth'' search_linear search_inverse =
    [\<lparr>symbol = ''ETHUSD'', baseSymbol = ''ETHUSD'', category = ''linear'',
      categoryLabel = ''USDT Perpetual'', minLeverage = Fin 1, maxLeverage = Fin 50\<rparr>,
     \<lparr>symbol = ''ETHUSD.I'', baseSymbol = ''ETHUSD'', category = ''inverse'',
      categoryLabel = ''Inverse Perpetual'', minLeverage = Fin 1, maxLeverage = Fin 50\<rparr>]
   \<and> finalResults ''eth'' search_linear search_inverse =
    [\<lparr>symbol = ''ETHUSD'', baseSymbol = ''ETHUSD'', category = ''linear'',
      categoryLabel = ''USDT Perpetual'', minLeverage = Fin 1, maxLeverage = Fin 50\<rparr>]
   \<and> to_pair ''inverse'' ethusd_item
        \<notin> set (uniquePairs (allPairs ''eth'' search_linear search_inverse))
   \<and> length (finalResults ''eth'' search_linear search_inverse) \<le> 12"
proof -
  have m: "matches_search ''eth'' ethusd_item"
    by (simp add: matches_search_def Let_def ethusd_item_def lower_eth sub_eth leverage_ok_def
        parse_50 suffix_def)
  have h: "usable_list search_linear = Some [btc_item, ethusd_item]"
      "ethusd_item \<in> set [btc_item, ethusd_item]"
      "usable_list search_inverse = Some [ethusd_item, btcusd_item]"
      "ethusd_item \<in> set [ethusd_item, btcusd_item]"
    by (simp_all add: search_linear_def search_inverse_def usable_list_def)
  have "to_pair ''inverse'' ethusd_item
        \<notin> set (uniquePairs (allPairs ''eth'' search_linear search_inverse))
     \<and> length (finalResults ''eth'' search_linear search_inverse) \<le> 12"
    using search_dedup_linear[OF h(1,2) m h(3,4) m refl] by blast
  then show ?thesis
    using all_pairs_eth final_eth by blast
qed

text \<open>
  C10. The symbol of every entry of the trending list ends in \<^verbatim>\<open>USDT\<close>: a ticker whose
  symbol does not is left out whatever its volume, price and price change, and a run
  of \<^verbatim>\<open>fetchTrendingPairs\<close> keeps the property of the stored list.
\<close>

theorem trending_symbols_end_with_USDT:
  "(\<forall>p \<in> set (validPairs tickers items). suffix ''USDT'' (symbol p))
   \<and> (\<forall>t \<in> set tickers. \<not> suffix ''USDT'' (ticker_symbol t) \<longrightarrow>
         ticker_symbol t \<notin> symbol ` set (validPairs tickers items))
   \<and> ((\<forall>p \<in> set (trendingPairs s). suffix ''USDT'' (symbol p)) \<longrightarrow>
        (\<forall>p \<in> set (trendingPairs (fetchTrendingPairs tickersData instrumentsData s)).
           suffix ''USDT'' (symbol p)))"
proof -
  have a: "suffix ''USDT'' (symbol p)" if "p \<in> set (validPairs ts is)" for p ts "is"
    using validPairs_from_filter[OF that]
    by (auto simp: symbol_trending_entry trending_filter_def)
  have b: "\<forall>t \<in> set tickers. \<not> suffix ''USDT'' (ticker_symbol t) \<longrightarrow>
         ticker_symbol t \<notin> symbol ` set (validPairs tickers items)"
    using a by auto
  have c: "(\<forall>p \<in> set (trendingPairs s). suffix ''USDT'' (symbol p)) \<longrightarrow>
        (\<forall>p \<in> set (trendingPairs (fetchTrendingPairs tickersData instrumentsData s)).
           suffix ''USDT'' (symbol p))"
    using a by (auto simp: fetchTrendingPairs_def Let_def split: option.splits)
  show ?thesis using a b c by blast
qed

theorem trending_symbols_end_with_USDT_witness:
  "validPairs [btc_ticker, perp_ticker] [btc_item, perp_item] =
     [\<lparr>symbol = ''BTCUSDT'', baseSymbol = ''BTCUSDT'', category = ''linear'',
       categoryLabel = ''USDT Perpetual'', minLeverage = Fin 1, maxLeverage = Fin 100,
       lastPrice = Fin 50000, priceChangePercent = Fin 6, volume24h = Fin 2000000,
       isHot = True\<rparr>]
   \<and> ticker_symbol perp_ticker \<notin>
       symbol ` set (validPairs [btc_ticker, perp_ticker] [btc_item, perp_item])
   \<and> js_gt (parseFloat (ticker_volume24h perp_ticker)) (parseFloat (ticker_volume24h btc_ticker))"
proof -
  have "\<not> suffix ''USDT'' (ticker_symbol perp_ticker)"
    by (simp add: perp_ticker_def suffix_def)
  then have "ticker_symbol perp_ticker \<notin>
       symbol ` set (validPairs [btc_ticker, perp_ticker] [btc_item, perp_item])"
    using trending_symbols_end_with_USDT[of "[btc_ticker, perp_ticker]" "[btc_item, perp_item]"]
    by simp
  moreover have "js_gt (parseFloat (ticker_volume24h perp_ticker))
      (parseFloat (ticker_volume24h btc_ticker))"
    by (simp add: perp_ticker_def btc_ticker_def parse_2000000 parse_9000000)
  ultimately show ?thesis
    using valid_pairs_example by blast
qed

end
